theory Spec2Isabelle
  imports Complex_Main
begin

unbundle bit_operations_syntax

section \<open>Numeric values\<close>

text \<open>
  The X-ray utility functions of \<^verbatim>\<open>99-macros.py\<close> and \<^verbatim>\<open>99-macros_99.py\<close> compute
  with Python floats and numpy \<^verbatim>\<open>float64\<close> scalars. Finite values are modelled as
  real numbers: rounding and overflow are not modelled, so an equation of the model is
  an equation "up to floating-point tolerance" of the program. The non-finite results
  that numpy produces instead of raising are kept as values: \<open>Inf\<close> is an infinity
  (of either sign: the model has no signed zero, so it does not track the sign) and
  \<open>NaN\<close> is not-a-number.

  Python's own float division raises \<^verbatim>\<open>ZeroDivisionError\<close>; a division whose operand is
  a numpy scalar does not raise (it warns and yields \<open>inf\<close> or \<open>nan\<close>).
  Arguments of the functions are Python numbers, that is, finite.
\<close>

datatype npfloat = Fin real | Inf | NaN

datatype py_error = ZeroDivisionError

text \<open>numpy multiplication: \<^verbatim>\<open>inf * 0\<close> is \<^verbatim>\<open>nan\<close>.\<close>

fun np_mul :: "npfloat \<Rightarrow> npfloat \<Rightarrow> npfloat" where
  "np_mul NaN _ = NaN"
| "np_mul _ NaN = NaN"
| "np_mul (Fin x) (Fin y) = Fin (x * y)"
| "np_mul Inf (Fin y) = (if y = 0 then NaN else Inf)"
| "np_mul (Fin x) Inf = (if x = 0 then NaN else Inf)"
| "np_mul Inf Inf = Inf"

text \<open>numpy true division: \<^verbatim>\<open>x / 0\<close> is \<^verbatim>\<open>inf\<close> for \<open>x \<noteq> 0\<close>, \<^verbatim>\<open>0 / 0\<close> and
  \<^verbatim>\<open>inf / inf\<close> are \<^verbatim>\<open>nan\<close>, \<^verbatim>\<open>x / inf\<close> is \<^verbatim>\<open>0\<close>.\<close>

fun np_div :: "npfloat \<Rightarrow> npfloat \<Rightarrow> npfloat" where
  "np_div NaN _ = NaN"
| "np_div _ NaN = NaN"
| "np_div (Fin x) (Fin y) = (if y = 0 then (if x = 0 then NaN else Inf) else Fin (x / y))"
| "np_div (Fin x) Inf = Fin 0"
| "np_div Inf (Fin y) = Inf"
| "np_div Inf Inf = NaN"

text \<open>\<^verbatim>\<open>np.sqrt\<close> of a Python integer: \<^verbatim>\<open>nan\<close> below zero.\<close>

definition np_sqrt :: "int \<Rightarrow> npfloat" where
  "np_sqrt n = (if n < 0 then NaN else Fin (sqrt (real_of_int n)))"

text \<open>\<^verbatim>\<open>np.arcsin\<close>: \<^verbatim>\<open>nan\<close> outside \<open>[-1, 1]\<close>.\<close>

fun np_arcsin :: "npfloat \<Rightarrow> npfloat" where
  "np_arcsin (Fin x) = (if \<bar>x\<bar> > 1 then NaN else Fin (arcsin x))"
| "np_arcsin Inf = NaN"
| "np_arcsin NaN = NaN"

text \<open>\<^verbatim>\<open>np.tan\<close>: over the reals the tangent has poles, where HOL's \<open>tan\<close> is \<open>0\<close>;
  the model returns \<open>Inf\<close> there.\<close>

fun np_tan :: "npfloat \<Rightarrow> npfloat" where
  "np_tan (Fin x) = (if cos x = 0 then Inf else Fin (tan x))"
| "np_tan Inf = NaN"
| "np_tan NaN = NaN"

section \<open>Bragg angle and photon energy\<close>

text \<open>
  \<^verbatim>\<open>xf_bragg2e(t, h=1, k=1, l=1, LN=0)\<close> of \<^verbatim>\<open>99-macros.py\<close>. The Miller indices and
  \<open>LN\<close> are Python integers. The source writes \<^verbatim>\<open>h^2+k^2+l^2\<close>: in Python \<^verbatim>\<open>^\<close> is
  bitwise exclusive or and binds weaker than \<^verbatim>\<open>+\<close>, so the expression is
  \<^verbatim>\<open>((h ^ (2+k)) ^ (2+l)) ^ 2\<close>.
\<close>

definition miller_norm :: "int \<Rightarrow> int \<Rightarrow> int \<Rightarrow> int" where
  "miller_norm h k l = ((h XOR (2 + k)) XOR (2 + l)) XOR 2"

definition xf_bragg2e :: "real \<Rightarrow> int \<Rightarrow> int \<Rightarrow> int \<Rightarrow> int \<Rightarrow> npfloat" where
  "xf_bragg2e t h k l LN =
     (let LN = (if LN \<noteq> 0 then 1 else LN);
          tt = (if t > 1 then t * pi / 180 else t);
          d0 = np_div (Fin (2 * 5.43102 * (1 - 0.00024 * real_of_int LN)))
                      (np_sqrt (miller_norm h k l));
          E = np_div (Fin 12398.42) (np_mul d0 (Fin (sin tt)))
      in E)"

text \<open>\<^verbatim>\<open>xf_bragg2e\<close> of \<^verbatim>\<open>99-macros_99.py\<close>, which writes \<^verbatim>\<open>h**2+k**2+l**2\<close>.\<close>

definition miller_norm_99 :: "int \<Rightarrow> int \<Rightarrow> int \<Rightarrow> int" where
  "miller_norm_99 h k l = h ^ 2 + k ^ 2 + l ^ 2"

definition xf_bragg2e_99 :: "real \<Rightarrow> int \<Rightarrow> int \<Rightarrow> int \<Rightarrow> int \<Rightarrow> npfloat" where
  "xf_bragg2e_99 t h k l LN =
     (let LN = (if LN \<noteq> 0 then 1 else LN);
          tt = (if t > 1 then t * pi / 180 else t);
          d0 = np_div (Fin (2 * 5.43102 * (1 - 0.00024 * real_of_int LN)))
                      (np_sqrt (miller_norm_99 h k l));
          E = np_div (Fin 12398.42) (np_mul d0 (Fin (sin tt)))
      in E)"

text \<open>\<^verbatim>\<open>xf_e2bragg(E, h=1, k=1, l=1)\<close>, in \<^verbatim>\<open>99-macros.py\<close> and in \<^verbatim>\<open>99-macros_99.py\<close>.
  The source computes \<^verbatim>\<open>np.arcsin(12398.42/d0/E) * 180/np.pi\<close>.\<close>

definition xf_e2bragg :: "real \<Rightarrow> int \<Rightarrow> int \<Rightarrow> int \<Rightarrow> npfloat" where
  "xf_e2bragg E h k l =
     (let E = (if E < 100 then E * 1000 else E);
          d0 = np_div (Fin (2 * 5.43102)) (np_sqrt (miller_norm h k l));
          t = np_div (np_mul (np_arcsin (np_div (np_div (Fin 12398.42) d0) (Fin E))) (Fin 180))
                     (Fin pi)
      in t)"

definition xf_e2bragg_99 :: "real \<Rightarrow> int \<Rightarrow> int \<Rightarrow> int \<Rightarrow> npfloat" where
  "xf_e2bragg_99 E h k l =
     (let E = (if E < 100 then E * 1000 else E);
          d0 = np_div (Fin (2 * 5.43102)) (np_sqrt (miller_norm_99 h k l));
          t = np_div (np_mul (np_arcsin (np_div (np_div (Fin 12398.42) d0) (Fin E))) (Fin 180))
                     (Fin pi)
      in t)"

section \<open>Detector distance and resolution\<close>

text \<open>
  \<^verbatim>\<open>xf_detZ2recResolution(detZ, xLambda, D=327.8)\<close> and
  \<^verbatim>\<open>xf_recResolution2detZ(recResolution, xLambda, D=327.8)\<close>, the same text in both
  files. \<^verbatim>\<open>0.5*D/detZ\<close> and \<^verbatim>\<open>xLambda/(2*recResolution)\<close> divide Python floats and raise
  on a zero divisor; the outer divisions have a numpy divisor. (A numpy scalar passed
  as argument behaves as the Python float of the same value, except that a zero does
  not raise.)
\<close>

definition xf_detZ2recResolution :: "real \<Rightarrow> real \<Rightarrow> real \<Rightarrow> py_error + npfloat" where
  "xf_detZ2recResolution detZ xLambda D =
     (if detZ = 0 then Inl ZeroDivisionError
      else Inr (np_div (Fin xLambda)
                  (np_mul (Fin 2) (Fin (sin (0.5 * arctan (0.5 * D / detZ)))))))"

definition xf_recResolution2detZ :: "real \<Rightarrow> real \<Rightarrow> real \<Rightarrow> py_error + npfloat" where
  "xf_recResolution2detZ recResolution xLambda D =
     (if 2 * recResolution = 0 then Inl ZeroDivisionError
      else Inr (np_div (Fin (0.5 * D))
                  (np_tan (np_mul (Fin 2) (np_arcsin (Fin (xLambda / (2 * recResolution))))))))"

text \<open>The default detector diameter of both functions.\<close>

definition D_default :: real where
  "D_default = 327.8"

section \<open>Bimorph mirror electrodes\<close>

text \<open>
  \<^verbatim>\<open>set_influence(electrode, bimorph, bank)\<close>, the same text in both files, talks to
  the high-voltage power supply through EPICS process variables. A process variable
  is named by its prefix and its suffix: \<open>HFM_PS\<close> is \<^verbatim>\<open>XF:17IDA-OP:FMX{Mir:HFM-PS}:\<close>,
  \<open>KB_PS\<close> is \<^verbatim>\<open>XF:17IDC-OP:FMX{Mir:KB-PS}:\<close>, and \<open>U_CURRENT_MON p j\<close> is the variable
  \<^verbatim>\<open>U{j}_CURRENT_MON\<close> under prefix \<open>p\<close>.
\<close>

datatype ps_prefix = HFM_PS | KB_PS

datatype pv =
    BANK_NO_32 ps_prefix
  | INCR_U_CMD ps_prefix
  | DECR_U_CMD ps_prefix
  | U_STEP_MON ps_prefix
  | U_CURRENT_MON ps_prefix int

text \<open>A device operation is a write (\<^verbatim>\<open>put\<close>) or a read (\<^verbatim>\<open>get\<close>) of a process variable.\<close>

datatype io = Put pv real | Get pv

text \<open>The lines the function prints.\<close>

datatype message =
    Msg_bimorph
  | Msg_electrode
  | Msg_difference
  | Msg_decrementing int real
  | Msg_incrementing int real

text \<open>
  The state the function acts on: the values of the process variables (every variable
  is connected and holds a number), the device operations issued so far, in order, and
  the lines printed so far. How the power supply reacts to a write is not modelled.
\<close>

record hw =
  pvs :: "pv \<Rightarrow> real"
  ops :: "io list"
  printed :: "message list"

definition pv_put :: "pv \<Rightarrow> real \<Rightarrow> hw \<Rightarrow> hw" where
  "pv_put p v s = s\<lparr>pvs := (pvs s)(p := v), ops := ops s @ [Put p v]\<rparr>"

definition pv_get :: "pv \<Rightarrow> hw \<Rightarrow> real \<times> hw" where
  "pv_get p s = (pvs s p, s\<lparr>ops := ops s @ [Get p]\<rparr>)"

definition print :: "message \<Rightarrow> hw \<Rightarrow> hw" where
  "print m s = s\<lparr>printed := printed s @ [m]\<rparr>"

text \<open>\<^verbatim>\<open>[pv.get() for pv in demand_pvs]\<close>\<close>

fun get_all :: "pv list \<Rightarrow> hw \<Rightarrow> real list \<times> hw" where
  "get_all [] s = ([], s)"
| "get_all (p # ps) s =
     (let (v, s1) = pv_get p s; (vs, s2) = get_all ps s1 in (v # vs, s2))"

definition allowed_bimorphs :: "string list" where
  "allowed_bimorphs = [''hfm'', ''kb'']"

text \<open>The demand vector after the decrement of electrode \<open>i - 1\<close> (when \<open>i > 0\<close>) and
  the increment of electrode \<open>i\<close>.\<close>

definition step_demands :: "int \<Rightarrow> real \<Rightarrow> real list \<Rightarrow> real list" where
  "step_demands i step demands =
     (let new_demands = demands;
          new_demands = (if i > 0
                         then new_demands[nat (i - 1) := new_demands ! nat (i - 1) - step]
                         else new_demands);
          new_demands = new_demands[nat i := new_demands ! nat i + step]
      in new_demands)"

text \<open>\<^verbatim>\<open>np.diff\<close>: the differences \<open>a[j+1] - a[j]\<close>.\<close>

fun np_diff :: "real list \<Rightarrow> real list" where
  "np_diff (a # b # xs) = (b - a) # np_diff (b # xs)"
| "np_diff _ = []"

text \<open>The loop over the differences, which returns at the first one above 500.\<close>

fun diff_too_large :: "real list \<Rightarrow> bool" where
  "diff_too_large [] = False"
| "diff_too_large (d # ds) = (if \<bar>d\<bar> > 500 then True else diff_too_large ds)"

definition set_influence :: "int \<Rightarrow> string \<Rightarrow> int \<Rightarrow> hw \<Rightarrow> hw" where
  "set_influence electrode bimorph bank s =
     (if bimorph \<notin> set allowed_bimorphs then print Msg_bimorph s
      else if electrode < 0 \<or> electrode > 31 then print Msg_electrode s
      else
        let prefix = (if bimorph = ''hfm'' then HFM_PS else KB_PS);
            bank_pv = BANK_NO_32 prefix;
            incr_pv = INCR_U_CMD prefix;
            decr_pv = DECR_U_CMD prefix;
            step_pv = U_STEP_MON prefix;
            demand_pvs = map (U_CURRENT_MON prefix) [(bank - 1) * 16 .. bank * 16 - 1];
            s = pv_put bank_pv (real_of_int (bank - 1)) s;
            (step, s) = pv_get step_pv s;
            (demands, s) = get_all demand_pvs s;
            i = (if electrode < 16 then electrode else electrode - 16);
            new_demands = step_demands i step demands
        in if diff_too_large (np_diff new_demands) then print Msg_difference s
           else
             let s = (if i > 0
                      then pv_put decr_pv (real_of_int (electrode - 1))
                             (print (Msg_decrementing (electrode - 1) step) s)
                      else s)
             in pv_put incr_pv (real_of_int electrode)
                  (print (Msg_incrementing electrode step) s))"

text \<open>A state of the power supply for the examples: step size 10, electrode 0 of
  either supply at 1000, every other demand at 0, nothing issued or printed yet.\<close>

definition hw0 :: hw where
  "hw0 = \<lparr>pvs = (\<lambda>p. case p of U_STEP_MON _ \<Rightarrow> 10
                          | U_CURRENT_MON _ j \<Rightarrow> (if j = 0 \<or> j = 16 then 1000 else 0)
                          | _ \<Rightarrow> 0),
          ops = [], printed = []\<rparr>"

section \<open>Auxiliary facts\<close>

subsection \<open>Miller indices\<close>

lemma miller_norm_99_nonneg: "0 \<le> miller_norm_99 h k l"
  by (simp add: miller_norm_99_def)

lemma miller_norm_99_zero_iff: "miller_norm_99 h k l = 0 \<longleftrightarrow> h = 0 \<and> k = 0 \<and> l = 0"
proof -
  have "0 \<le> h ^ 2" "0 \<le> k ^ 2" "0 \<le> l ^ 2" by simp_all
  then have "h ^ 2 + k ^ 2 + l ^ 2 = 0 \<longleftrightarrow> h ^ 2 = 0 \<and> k ^ 2 = 0 \<and> l ^ 2 = 0"
    by linarith
  then show ?thesis by (simp add: miller_norm_99_def)
qed

lemma miller_norm_99_pos: "\<not> (h = 0 \<and> k = 0 \<and> l = 0) \<Longrightarrow> 0 < miller_norm_99 h k l"
  using miller_norm_99_nonneg [of h k l] miller_norm_99_zero_iff [of h k l] by linarith

lemma miller_norm_111: "miller_norm 1 1 1 = 3"
  by (simp add: miller_norm_def)

lemma miller_norm_311: "miller_norm 3 1 1 = 1"
  by (simp add: miller_norm_def)

subsection \<open>Angles\<close>

lemma radians_range:
  assumes "0 < t" and "t \<le> 90"
  shows "0 < (if t > 1 then t * pi / 180 else t)"
    and "(if t > 1 then t * pi / 180 else t) \<le> pi / 2"
proof -
  show "0 < (if t > 1 then t * pi / 180 else t)"
    using assms pi_gt_zero by simp
  have "t * pi / 180 \<le> pi / 2"
  proof -
    have "t * pi \<le> 90 * pi" using assms pi_gt_zero by simp
    then show ?thesis by simp
  qed
  moreover have "t \<le> 1 \<Longrightarrow> t \<le> pi / 2"
    using pi_ge_two by linarith
  ultimately show "(if t > 1 then t * pi / 180 else t) \<le> pi / 2"
    by auto
qed

lemma sin_range:
  assumes "0 < x" and "x \<le> pi / 2"
  shows "0 < sin x"
proof -
  have "x < pi" using assms pi_gt_zero by linarith
  then show "0 < sin x" using assms by (simp add: sin_gt_zero)
qed

lemma sin10_pos: "0 < sin (10 * pi / 180)"
  by (rule sin_gt_zero) (use pi_gt_zero in auto)

lemma sel100: "(if (100::real) > 1 then 100 * pi / 180 else 100) = 100 * pi / 180"
  by simp

lemma sin100: "sin (100 * pi / 180) = sin (80 * pi / 180)"
proof -
  have "100 * pi / 180 = pi - 80 * pi / 180" by simp
  then show ?thesis by (simp only: sin_pi_minus)
qed

lemma sin100_pos: "0 < sin (100 * pi / 180)"
  unfolding sin100 by (rule sin_gt_zero) (use pi_gt_zero in auto)

lemma arcsin_sin100: "arcsin (sin (100 * pi / 180)) * 180 / pi = 80"
proof -
  have as: "arcsin (sin (80 * pi / 180)) = 80 * pi / 180"
    using pi_gt_zero by (intro arcsin_sin) linarith+
  have "80 * pi / 180 * 180 / pi = (80::real)"
    using pi_gt_zero by simp
  then show ?thesis unfolding sin100 as .
qed

subsection \<open>Values of the numpy expressions\<close>

lemma np_energy_value:
  assumes "0 < n" and "c \<noteq> 0" and "x \<noteq> 0"
  shows "np_div (Fin K) (np_mul (np_div (Fin c) (np_sqrt n)) (Fin x))
         = Fin (K / (c / sqrt (real_of_int n) * x))"
  using assms by (simp add: np_sqrt_def)

lemma np_energy_cases:
  assumes "c \<noteq> 0" and "K \<noteq> 0" and "0 \<le> n"
  shows "np_div (Fin K) (np_mul (np_div (Fin c) (np_sqrt n)) (Fin x))
         = (if n = 0 then (if x = 0 then NaN else Fin 0)
            else if x = 0 then Inf
            else Fin (K / (c / sqrt (real_of_int n) * x)))"
  using assms by (simp add: np_sqrt_def)

lemma np_angle_arg_value:
  assumes "0 < n" and "c \<noteq> 0" and "E \<noteq> 0"
  shows "np_div (np_div (Fin K) (np_div (Fin c) (np_sqrt n))) (Fin E)
         = Fin (K / (c / sqrt (real_of_int n)) / E)"
  using assms by (simp add: np_sqrt_def)

lemma np_degrees_value:
  assumes "\<bar>x\<bar> \<le> 1"
  shows "np_div (np_mul (np_arcsin (Fin x)) (Fin 180)) (Fin pi) = Fin (arcsin x * 180 / pi)"
  using assms by simp

lemma np_arcsin_out_of_domain:
  assumes "0 < n" and "c \<noteq> 0" and "1 < \<bar>K / (c / sqrt (real_of_int n)) / E\<bar>"
  shows "np_div (np_mul (np_arcsin (np_div (np_div (Fin K) (np_div (Fin c) (np_sqrt n))) (Fin E)))
           (Fin 180)) (Fin pi) = NaN"
proof -
  have "E \<noteq> 0" using assms(3) by auto
  then show ?thesis
    unfolding np_angle_arg_value [OF assms(1,2) \<open>E \<noteq> 0\<close>] using assms(3) by simp
qed

lemma cold_factor_nonzero:
  "2 * 5.43102 * (1 - 0.00024 * real_of_int (if LN \<noteq> 0 then 1 else LN)) \<noteq> (0::real)"
  by simp

subsection \<open>The energy of a Bragg angle, case by case\<close>

lemma xf_bragg2e_99_cases:
  "xf_bragg2e_99 t h k l LN =
     (if h = 0 \<and> k = 0 \<and> l = 0
      then (if sin (if t > 1 then t * pi / 180 else t) = 0 then NaN else Fin 0)
      else if sin (if t > 1 then t * pi / 180 else t) = 0 then Inf
      else Fin (12398.42 /
             (2 * 5.43102 * (1 - 0.00024 * real_of_int (if LN \<noteq> 0 then 1 else LN))
               / sqrt (real_of_int (h ^ 2 + k ^ 2 + l ^ 2))
               * sin (if t > 1 then t * pi / 180 else t))))"
proof -
  have K: "(12398.42 :: real) \<noteq> 0" by simp
  have n0: "0 \<le> miller_norm_99 h k l" by (rule miller_norm_99_nonneg)
  show ?thesis
    unfolding xf_bragg2e_99_def Let_def
      np_energy_cases [OF cold_factor_nonzero K n0] miller_norm_99_zero_iff
    unfolding miller_norm_99_def ..
qed

lemma xf_bragg2e_cases:
  assumes "0 \<le> miller_norm h k l"
  shows "xf_bragg2e t h k l LN =
     (if miller_norm h k l = 0
      then (if sin (if t > 1 then t * pi / 180 else t) = 0 then NaN else Fin 0)
      else if sin (if t > 1 then t * pi / 180 else t) = 0 then Inf
      else Fin (12398.42 /
             (2 * 5.43102 * (1 - 0.00024 * real_of_int (if LN \<noteq> 0 then 1 else LN))
               / sqrt (real_of_int (miller_norm h k l))
               * sin (if t > 1 then t * pi / 180 else t))))"
proof -
  have K: "(12398.42 :: real) \<noteq> 0" by simp
  show ?thesis
    unfolding xf_bragg2e_def Let_def
      np_energy_cases [OF cold_factor_nonzero K assms] ..
qed

text \<open>
  With arithmetic squares (\<^verbatim>\<open>99-macros_99.py\<close>), indices that are not all zero and
  \<open>sin angle_rad \<noteq> 0\<close>, the energy is the closed form of the Bragg law. At the
  default indices \<open>(1, 1, 1)\<close> the exclusive-or expression of \<^verbatim>\<open>99-macros.py\<close> is
  \<open>3\<close> as well, and both files agree on \<^verbatim>\<open>xf_bragg2e(10, h=1, k=1, l=1)\<close>.
\<close>

lemma xf_bragg2e_99_closed_form:
  assumes "\<not> (h = 0 \<and> k = 0 \<and> l = 0)" and "sin (if t > 1 then t * pi / 180 else t) \<noteq> 0"
  shows "xf_bragg2e_99 t h k l LN =
           Fin (12398.42 /
             (2 * 5.43102 * (1 - 0.00024 * real_of_int (if LN \<noteq> 0 then 1 else 0))
               / sqrt (real_of_int (h ^ 2 + k ^ 2 + l ^ 2))
               * sin (if t > 1 then t * pi / 180 else t)))"
proof -
  have "(if LN \<noteq> 0 then 1 else LN) = (if LN \<noteq> 0 then 1 else 0)" by simp
  then show ?thesis
    unfolding xf_bragg2e_99_cases using assms by simp
qed

lemma xf_bragg2e_example_111:
  "xf_bragg2e 10 1 1 1 0 = Fin (12398.42 / (2 * 5.43102 / sqrt 3 * sin (10 * pi / 180))) \<and>
   xf_bragg2e_99 10 1 1 1 0 = Fin (12398.42 / (2 * 5.43102 / sqrt 3 * sin (10 * pi / 180)))"
proof -
  have n0: "0 \<le> miller_norm 1 1 1" by (simp add: miller_norm_111)
  show ?thesis
    using sin10_pos by (simp add: xf_bragg2e_cases [OF n0] xf_bragg2e_99_cases miller_norm_111)
qed

subsection \<open>From the angle to the energy and back\<close>

lemma energy_core:
  fixes s x :: real
  assumes "1 \<le> s" and "0 < x" and "x \<le> 1"
  shows "100 \<le> 12398.42 / (2 * 5.43102 / s * x)"
    and "12398.42 / (2 * 5.43102 / s) / (12398.42 / (2 * 5.43102 / s * x)) = x"
proof -
  have s: "0 < s" using assms by linarith
  have "2 * 5.43102 / s * x \<le> 2 * 5.43102 * 1"
  proof -
    have "2 * 5.43102 / s \<le> (2 * 5.43102 :: real)"
      using assms s by (simp add: field_simps)
    moreover have "0 \<le> 2 * 5.43102 / s" using s by simp
    ultimately have "2 * 5.43102 / s * x \<le> 2 * 5.43102 * x"
      using assms by (intro mult_right_mono) auto
    also have "\<dots> \<le> 2 * 5.43102 * 1" using assms by simp
    finally show ?thesis .
  qed
  moreover have pos: "0 < 2 * 5.43102 / s * x" using s assms by simp
  ultimately have "12398.42 / (2 * 5.43102 * 1) \<le> 12398.42 / (2 * 5.43102 / s * x)"
    by (intro divide_left_mono) auto
  then show "100 \<le> 12398.42 / (2 * 5.43102 / s * x)" by simp
  show "12398.42 / (2 * 5.43102 / s) / (12398.42 / (2 * 5.43102 / s * x)) = x"
    using s assms by (simp add: field_simps)
qed

lemma roundtrip_general:
  fixes n :: int and t :: real
  assumes n: "0 < n"
  defines "tt \<equiv> (if t > 1 then t * pi / 180 else t)"
  defines "E \<equiv> 12398.42 / (2 * 5.43102 / sqrt (real_of_int n) * sin tt)"
  assumes x: "0 < sin tt"
  shows "np_div (Fin 12398.42) (np_mul (np_div (Fin (2 * 5.43102 * (1 - 0.00024 * real_of_int (if (0::int) \<noteq> 0 then 1 else 0)))) (np_sqrt n)) (Fin (sin tt))) = Fin E"
    and "np_div (np_mul (np_arcsin (np_div (np_div (Fin 12398.42)
            (np_div (Fin (2 * 5.43102)) (np_sqrt n))) (Fin (if E < 100 then E * 1000 else E))))
            (Fin 180)) (Fin pi) = Fin (arcsin (sin tt) * 180 / pi)"
proof -
  have s: "1 \<le> sqrt (real_of_int n)" using n by simp
  have x1: "sin tt \<le> 1" by simp
  have E100: "100 \<le> E" and inv: "12398.42 / (2 * 5.43102 / sqrt (real_of_int n)) / E = sin tt"
    using energy_core [OF s x x1] by (simp_all add: E_def)
  have c: "(2 * 5.43102 :: real) \<noteq> 0" by simp
  have c': "2 * 5.43102 * (1 - 0.00024 * real_of_int (if (0::int) \<noteq> 0 then 1 else 0))
            = (2 * 5.43102 :: real)" by simp
  have xn: "sin tt \<noteq> 0" using x by linarith
  show "np_div (Fin 12398.42) (np_mul (np_div (Fin (2 * 5.43102 * (1 - 0.00024 * real_of_int (if (0::int) \<noteq> 0 then 1 else 0)))) (np_sqrt n)) (Fin (sin tt))) = Fin E"
    unfolding c' E_def by (rule np_energy_value [OF n c xn])
  have E0: "E \<noteq> 0" using E100 by linarith
  have sel: "(if E < 100 then E * 1000 else E) = E" using E100 by simp
  have ab: "\<bar>sin tt\<bar> \<le> 1" by simp
  show "np_div (np_mul (np_arcsin (np_div (np_div (Fin 12398.42)
            (np_div (Fin (2 * 5.43102)) (np_sqrt n))) (Fin (if E < 100 then E * 1000 else E))))
            (Fin 180)) (Fin pi) = Fin (arcsin (sin tt) * 180 / pi)"
    unfolding sel np_angle_arg_value [OF n c E0] inv np_degrees_value [OF ab] ..
qed

lemma roundtrip_core:
  fixes n :: int and t :: real
  assumes n: "0 < n" and t: "0 < t" "t \<le> 90"
  defines "tt \<equiv> (if t > 1 then t * pi / 180 else t)"
  defines "E \<equiv> 12398.42 / (2 * 5.43102 / sqrt (real_of_int n) * sin tt)"
  shows "np_div (Fin 12398.42) (np_mul (np_div (Fin (2 * 5.43102 * (1 - 0.00024 * real_of_int (if (0::int) \<noteq> 0 then 1 else 0)))) (np_sqrt n)) (Fin (sin tt))) = Fin E"
    and "np_div (np_mul (np_arcsin (np_div (np_div (Fin 12398.42)
            (np_div (Fin (2 * 5.43102)) (np_sqrt n))) (Fin (if E < 100 then E * 1000 else E))))
            (Fin 180)) (Fin pi) = Fin (if t > 1 then t else t * 180 / pi)"
proof -
  have tt: "0 < tt" "tt \<le> pi / 2" using radians_range [OF t] by (simp_all add: tt_def)
  have x: "0 < sin tt" using sin_range [OF tt] by simp
  have as: "arcsin (sin tt) = tt"
    using tt by (intro arcsin_sin) linarith+
  have deg: "tt * 180 / pi = (if t > 1 then t else t * 180 / pi)"
    using pi_gt_zero by (simp add: tt_def)
  show "np_div (Fin 12398.42) (np_mul (np_div (Fin (2 * 5.43102 * (1 - 0.00024 * real_of_int (if (0::int) \<noteq> 0 then 1 else 0)))) (np_sqrt n)) (Fin (sin tt))) = Fin E"
    unfolding E_def tt_def by (rule roundtrip_general(1) [OF n x [unfolded tt_def]])
  show "np_div (np_mul (np_arcsin (np_div (np_div (Fin 12398.42)
            (np_div (Fin (2 * 5.43102)) (np_sqrt n))) (Fin (if E < 100 then E * 1000 else E))))
            (Fin 180)) (Fin pi) = Fin (if t > 1 then t else t * 180 / pi)"
    unfolding E_def using roundtrip_general(2) [OF n x [unfolded tt_def]]
    unfolding as [unfolded tt_def] deg [unfolded tt_def] tt_def .
qed

lemma roundtrip_99:
  assumes "0 < t" "t \<le> 90" "\<not> (h = 0 \<and> k = 0 \<and> l = 0)"
  shows "\<exists>E. xf_bragg2e_99 t h k l 0 = Fin E \<and>
             xf_e2bragg_99 E h k l = Fin (if t > 1 then t else t * 180 / pi)"
proof -
  have n: "0 < miller_norm_99 h k l" by (rule miller_norm_99_pos [OF assms(3)])
  let ?tt = "if t > 1 then t * pi / 180 else t"
  let ?E = "12398.42 / (2 * 5.43102 / sqrt (real_of_int (miller_norm_99 h k l)) * sin ?tt)"
  have "xf_bragg2e_99 t h k l 0 = Fin ?E"
    unfolding xf_bragg2e_99_def Let_def by (rule roundtrip_core(1) [OF n assms(1,2)])
  moreover have "xf_e2bragg_99 ?E h k l = Fin (if t > 1 then t else t * 180 / pi)"
    unfolding xf_e2bragg_99_def Let_def by (rule roundtrip_core(2) [OF n assms(1,2)])
  ultimately show ?thesis by blast
qed

lemma roundtrip_111:
  assumes "0 < t" "t \<le> 90"
  shows "\<exists>E. xf_bragg2e t 1 1 1 0 = Fin E \<and>
             xf_e2bragg E 1 1 1 = Fin (if t > 1 then t else t * 180 / pi)"
proof -
  have n: "0 < miller_norm 1 1 1" by (simp add: miller_norm_def)
  let ?tt = "if t > 1 then t * pi / 180 else t"
  let ?E = "12398.42 / (2 * 5.43102 / sqrt (real_of_int (miller_norm 1 1 1)) * sin ?tt)"
  have "xf_bragg2e t 1 1 1 0 = Fin ?E"
    unfolding xf_bragg2e_def Let_def by (rule roundtrip_core(1) [OF n assms(1,2)])
  moreover have "xf_e2bragg ?E 1 1 1 = Fin (if t > 1 then t else t * 180 / pi)"
    unfolding xf_e2bragg_def Let_def by (rule roundtrip_core(2) [OF n assms(1,2)])
  ultimately show ?thesis by blast
qed

subsection \<open>Detector distance and resolution\<close>

lemma half_arctan_range:
  assumes "0 < y"
  shows "0 < 0.5 * arctan y" and "0.5 * arctan y < pi / 4"
proof -
  have "0 < arctan y" using assms by (simp add: arctan_less_zero_iff)
  then show "0 < 0.5 * arctan y" by simp
  have "arctan y < pi / 2" by (rule arctan_ubound)
  then show "0.5 * arctan y < pi / 4" by simp
qed

lemma sin_half_arctan_pos:
  assumes "0 < y"
  shows "0 < sin (0.5 * arctan y)"
proof -
  have "0.5 * arctan y < pi"
    using half_arctan_range(2) [OF assms] pi_gt_zero by linarith
  then show ?thesis
    using half_arctan_range(1) [OF assms] by (intro sin_gt_zero)
qed

lemma resolution_value:
  assumes "detZ \<noteq> 0" and "sin (0.5 * arctan (0.5 * D / detZ)) \<noteq> 0"
  shows "xf_detZ2recResolution detZ xLambda D
         = Inr (Fin (xLambda / (2 * sin (0.5 * arctan (0.5 * D / detZ)))))"
  using assms by (simp add: xf_detZ2recResolution_def)

lemma distance_value:
  assumes y: "0 < y" and l: "0 < xLambda"
  shows "xf_recResolution2detZ (xLambda / (2 * sin (0.5 * arctan y))) xLambda D
         = Inr (Fin (0.5 * D / y))"
proof -
  let ?x = "sin (0.5 * arctan y)"
  have x: "0 < ?x" by (rule sin_half_arctan_pos [OF y])
  have r: "2 * (xLambda / (2 * ?x)) \<noteq> 0" using x l by simp
  have arg: "xLambda / (2 * (xLambda / (2 * ?x))) = ?x"
    using x l by (simp add: field_simps)
  have ab: "\<not> \<bar>?x\<bar> > 1" using abs_sin_le_one [of "0.5 * arctan y"] by linarith
  have as: "arcsin ?x = 0.5 * arctan y"
    using half_arctan_range [OF y] pi_gt_zero by (intro arcsin_sin) linarith+
  have c: "cos (arctan y) \<noteq> 0" by (rule cos_arctan_not_zero)
  have y0: "y \<noteq> 0" using y by simp
  have s1: "np_arcsin (Fin ?x) = Fin (0.5 * arctan y)"
    using ab as by simp
  have s2: "np_mul (Fin 2) (Fin (0.5 * arctan y)) = Fin (arctan y)"
    by simp
  have s3: "np_tan (Fin (arctan y)) = Fin y"
    using c by (simp add: tan_arctan)
  have s4: "np_div (Fin (0.5 * D)) (Fin y) = Fin (0.5 * D / y)"
    using y0 by simp
  have main: "np_div (Fin (0.5 * D))
          (np_tan (np_mul (Fin 2) (np_arcsin (Fin (xLambda / (2 * (xLambda / (2 * ?x))))))))
        = Fin (0.5 * D / y)"
    unfolding arg s1 s2 s3 s4 ..
  show ?thesis
    unfolding xf_recResolution2detZ_def if_not_P [OF r] main ..
qed

lemma sqrt5_bounds: "2.23606 < sqrt 5" "sqrt 5 < 2.23607"
proof -
  have "sqrt ((2.23606::real) ^ 2) < sqrt 5"
    by (rule real_sqrt_less_mono) (simp add: power2_eq_square)
  then show "2.23606 < sqrt 5" by simp
  have "sqrt 5 < sqrt ((2.23607::real) ^ 2)"
    by (rule real_sqrt_less_mono) (simp add: power2_eq_square)
  then show "sqrt 5 < 2.23607" by simp
qed

lemma cos_arctan_half: "cos (arctan (1 / 2)) = 2 / sqrt 5"
proof -
  have "cos (arctan (1 / 2)) = 1 / sqrt (1 + (1 / 2)\<^sup>2)"
    by (rule cos_arctan)
  also have "1 + (1 / 2 :: real)\<^sup>2 = 5 / 4" by (simp add: power2_eq_square)
  also have "sqrt (5 / 4) = sqrt 5 / 2"
    by (simp add: real_sqrt_divide)
  finally show ?thesis by simp
qed

lemma sin_half_sq: "(sin (0.5 * arctan (1 / 2)))\<^sup>2 = (1 - 2 / sqrt 5) / 2"
proof -
  have "cos (2 * (0.5 * arctan (1 / 2))) = 1 - 2 * (sin (0.5 * arctan (1 / 2)))\<^sup>2"
    by (rule cos_double_sin)
  then have "cos (arctan (1 / 2)) = 1 - 2 * (sin (0.5 * arctan (1 / 2)))\<^sup>2"
    by simp
  then show ?thesis
    unfolding cos_arctan_half by simp
qed

lemma resolution_bounds:
  "2.176 < 1 / (2 * sin (0.5 * arctan (1 / 2)))"
  "1 / (2 * sin (0.5 * arctan (1 / 2))) < 2.177"
proof -
  let ?q = "sin (0.5 * arctan (1 / 2))"
  have q: "0 < ?q" by (rule sin_half_arctan_pos) simp
  have s5: "0 < sqrt 5" by simp
  have lo: "0.89442 < 2 / sqrt 5"
  proof -
    have "0.89442 * sqrt 5 < 0.89442 * 2.23607" using sqrt5_bounds(2) by simp
    also have "\<dots> < (2::real)" by simp
    finally show ?thesis using s5 by (simp add: pos_less_divide_eq)
  qed
  have hi: "2 / sqrt 5 < 0.89444"
  proof -
    have "(2::real) < 0.89444 * 2.23606" by simp
    also have "\<dots> < 0.89444 * sqrt 5" using sqrt5_bounds(1) by simp
    finally show ?thesis using s5 by (simp add: pos_divide_less_eq)
  qed
  have sq_hi: "?q\<^sup>2 < (1 / (2 * 2.176))\<^sup>2"
    unfolding sin_half_sq using lo by (simp add: power2_eq_square)
  have sq_lo: "(1 / (2 * 2.177))\<^sup>2 < ?q\<^sup>2"
    unfolding sin_half_sq using hi by (simp add: power2_eq_square)
  have q_hi: "?q < 1 / (2 * 2.176)"
    by (rule power2_less_imp_less [OF sq_hi]) simp
  have q_lo: "1 / (2 * 2.177) < ?q"
    by (rule power2_less_imp_less [OF sq_lo]) (use q in simp)
  show "2.176 < 1 / (2 * ?q)"
    using q q_hi by (simp add: field_simps)
  show "1 / (2 * ?q) < 2.177"
    using q q_lo by (simp add: field_simps)
qed

text \<open>The arctangent of \<open>1/2\<close>, from the alternating series of \<open>arctan\<close>.\<close>

lemma arctan_half_bounds: "0.4636 < arctan (1 / 2)" "arctan (1 / 2) < 0.4637"
proof -
  let ?a = "\<lambda>n. 1 / real (n * 2 + 1) * (1 / 2 :: real) ^ (n * 2 + 1)"
  have ab: "\<bar>1 / 2 :: real\<bar> \<le> 1" by simp
  have z: "?a \<longlonglongrightarrow> 0" by (rule zeroseq_arctan_series [OF ab])
  have m: "monoseq ?a" by (rule monoseq_arctan_series [OF ab])
  have p: "0 < ?a 0" by simp
  have s: "arctan (1 / 2) = (\<Sum>k. (- 1) ^ k * ?a k)"
    by (rule arctan_series [OF ab])
  have b: "(\<Sum>i. (- 1) ^ i * ?a i) \<in> {\<Sum>i<2 * 3. (- 1) ^ i * ?a i .. \<Sum>i<2 * 3 + 1. (- 1) ^ i * ?a i}"
    using summable_Leibniz(2) [OF z m] p by blast
  have lo: "(\<Sum>i<2 * 3. (- 1) ^ i * ?a i) > 0.4636"
    by (simp add: eval_nat_numeral lessThan_Suc)
  have hi: "(\<Sum>i<2 * 3 + 1. (- 1) ^ i * ?a i) < 0.4637"
    by (simp add: eval_nat_numeral lessThan_Suc)
  show "0.4636 < arctan (1 / 2)" using b lo unfolding s by simp
  show "arctan (1 / 2) < 0.4637" using b hi unfolding s by simp
qed

lemma arg_half: "0.5 * D_default / 327.8 = (1 / 2 :: real)"
  by (simp add: D_default_def)

lemma resolution_at_default:
  "xf_detZ2recResolution 327.8 1 D_default = Inr (Fin (1 / (2 * sin (0.5 * arctan (1 / 2)))))"
proof -
  have x: "sin (0.5 * arctan (0.5 * D_default / 327.8)) \<noteq> 0"
    unfolding arg_half using sin_half_arctan_pos [of "1 / 2"] by simp
  have z: "(327.8 :: real) \<noteq> 0" by simp
  have "xf_detZ2recResolution 327.8 1 D_default
        = Inr (Fin (1 / (2 * sin (0.5 * arctan (0.5 * D_default / 327.8)))))"
    by (rule resolution_value [OF z x])
  then show ?thesis unfolding arg_half .
qed

subsection \<open>The electrode step\<close>

lemma get_all_eq: "get_all ps s = (map (pvs s) ps, s\<lparr>ops := ops s @ map Get ps\<rparr>)"
proof (induction ps arbitrary: s)
  case Nil
  then show ?case by simp
next
  case (Cons p ps)
  then show ?case by (simp add: pv_get_def)
qed

lemma diff_too_large_iff: "diff_too_large ds \<longleftrightarrow> (\<exists>d \<in> set ds. \<bar>d\<bar> > 500)"
  by (induction ds) auto

lemma length_np_diff: "length (np_diff xs) = length xs - 1"
  by (induction xs rule: np_diff.induct) simp_all

lemma nth_np_diff: "Suc j < length xs \<Longrightarrow> np_diff xs ! j = xs ! Suc j - xs ! j"
proof (induction xs arbitrary: j rule: np_diff.induct)
  case (1 a b xs)
  then show ?case by (cases j) simp_all
qed simp_all

lemma diff_too_large_np_diff:
  "diff_too_large (np_diff xs) \<longleftrightarrow> (\<exists>j. Suc j < length xs \<and> \<bar>xs ! Suc j - xs ! j\<bar> > 500)"
proof
  assume "diff_too_large (np_diff xs)"
  then obtain d where "d \<in> set (np_diff xs)" "\<bar>d\<bar> > 500"
    by (auto simp: diff_too_large_iff)
  then obtain j where j: "j < length (np_diff xs)" "np_diff xs ! j = d"
    by (auto simp: in_set_conv_nth)
  then have "Suc j < length xs" by (simp add: length_np_diff)
  then show "\<exists>j. Suc j < length xs \<and> \<bar>xs ! Suc j - xs ! j\<bar> > 500"
    using j \<open>\<bar>d\<bar> > 500\<close> nth_np_diff [of j xs] by auto
next
  assume "\<exists>j. Suc j < length xs \<and> \<bar>xs ! Suc j - xs ! j\<bar> > 500"
  then obtain j where j: "Suc j < length xs" "\<bar>xs ! Suc j - xs ! j\<bar> > 500" by blast
  then have "j < length (np_diff xs)" by (simp add: length_np_diff)
  then have "np_diff xs ! j \<in> set (np_diff xs)" by simp
  then show "diff_too_large (np_diff xs)"
    using j nth_np_diff [OF j(1)] by (auto simp: diff_too_large_iff)
qed

text \<open>A call with valid arguments: the bank is selected, the step size and the sixteen
  demands are read, and only then the differences are checked.\<close>

lemma set_influence_valid:
  assumes "bimorph \<in> set allowed_bimorphs" and "0 \<le> electrode" and "electrode \<le> 31"
  shows "set_influence electrode bimorph bank s =
     (let p = (if bimorph = ''hfm'' then HFM_PS else KB_PS);
          demand_pvs = map (U_CURRENT_MON p) [(bank - 1) * 16 .. bank * 16 - 1];
          step = pvs s (U_STEP_MON p);
          i = (if electrode < 16 then electrode else electrode - 16);
          s3 = s\<lparr>pvs := (pvs s)(BANK_NO_32 p := real_of_int (bank - 1)),
                 ops := ops s @ Put (BANK_NO_32 p) (real_of_int (bank - 1)) # Get (U_STEP_MON p)
                          # map Get demand_pvs\<rparr>
      in if diff_too_large (np_diff (step_demands i step (map (pvs s) demand_pvs)))
         then print Msg_difference s3
         else pv_put (INCR_U_CMD p) (real_of_int electrode)
                (print (Msg_incrementing electrode step)
                   (if i > 0
                    then pv_put (DECR_U_CMD p) (real_of_int (electrode - 1))
                           (print (Msg_decrementing (electrode - 1) step) s3)
                    else s3)))"
  using assms
  by (simp add: set_influence_def Let_def pv_get_def get_all_eq pv_put_def print_def comp_def)

section \<open>The claims\<close>

text \<open>
  Claim C1: for every angle, Miller indices and cold-crystal flag, \<^verbatim>\<open>xf_bragg2e\<close> returns
  \<open>12398.42 / (d0 * sin angle_rad)\<close> with \<open>d0 = 2 * 5.43102 * (1 - 2.4e-4 * [LN]) /
  sqrt (h\<^sup>2 + k\<^sup>2 + l\<^sup>2)\<close>, the squares being arithmetic squares. The function of
  \<^verbatim>\<open>99-macros.py\<close> does not: at \<^verbatim>\<open>xf_bragg2e(10, h=3, k=1, l=1)\<close> its exclusive-or
  expression is \<open>1\<close>, not \<open>11\<close>, and the energy it returns is not the one of the claim,
  which the function of \<^verbatim>\<open>99-macros_99.py\<close> returns (\<open>xf_bragg2e_99_closed_form\<close>,
  and \<open>xf_bragg2e_example_111\<close> for the example of the claim).
\<close>

theorem xf_bragg2e_xor_at_311:
  "xf_bragg2e 10 3 1 1 0 = Fin (12398.42 / (2 * 5.43102 / sqrt 1 * sin (10 * pi / 180))) \<and>
   xf_bragg2e 10 3 1 1 0 \<noteq>
     Fin (12398.42 / (2 * 5.43102 * (1 - 0.00024 * 0) / sqrt (3 ^ 2 + 1 ^ 2 + 1 ^ 2)
            * sin (10 * pi / 180))) \<and>
   xf_bragg2e_99 10 3 1 1 0 =
     Fin (12398.42 / (2 * 5.43102 * (1 - 0.00024 * 0) / sqrt (3 ^ 2 + 1 ^ 2 + 1 ^ 2)
            * sin (10 * pi / 180)))"
proof -
  have n0: "0 \<le> miller_norm 3 1 1" by (simp add: miller_norm_311)
  show ?thesis
    using sin10_pos
    by (simp add: xf_bragg2e_cases [OF n0] xf_bragg2e_99_cases miller_norm_311)
qed

text \<open>
  Claim C2: the function \<^verbatim>\<open>xf_bragg2e\<close> of \<^verbatim>\<open>99-macros.py\<close> and the one of
  \<^verbatim>\<open>99-macros_99.py\<close> return the same value on every input. They differ at
  \<^verbatim>\<open>xf_bragg2e(10, h=3, k=1, l=1)\<close>.
\<close>

theorem xf_bragg2e_files_differ:
  "xf_bragg2e 10 3 1 1 0 \<noteq> xf_bragg2e_99 10 3 1 1 0"
proof -
  have n0: "0 \<le> miller_norm 3 1 1" by (simp add: miller_norm_311)
  show ?thesis
    using sin10_pos
    by (simp add: xf_bragg2e_cases [OF n0] xf_bragg2e_99_cases miller_norm_311)
qed

text \<open>
  Claim C3, as amended: for an angle \<open>0 < t \<le> 90\<close> (read as degrees above 1, as radians
  up to 1), with the cold-crystal correction off, \<^verbatim>\<open>xf_e2bragg\<close> applied to the energy
  that \<^verbatim>\<open>xf_bragg2e\<close> returns gives the angle back in degrees: in \<^verbatim>\<open>99-macros_99.py\<close>
  for all Miller indices that are not all zero, in \<^verbatim>\<open>99-macros.py\<close> at the default
  indices \<open>(1, 1, 1)\<close>.
\<close>

theorem bragg_roundtrip:
  assumes "0 < t" and "t \<le> 90"
  shows "(\<not> (h = 0 \<and> k = 0 \<and> l = 0) \<longrightarrow>
            (\<exists>E. xf_bragg2e_99 t h k l 0 = Fin E \<and>
                 xf_e2bragg_99 E h k l = Fin (if t > 1 then t else t * 180 / pi))) \<and>
         (\<exists>E. xf_bragg2e t 1 1 1 0 = Fin E \<and>
              xf_e2bragg E 1 1 1 = Fin (if t > 1 then t else t * 180 / pi))"
  using roundtrip_99 [OF assms] roundtrip_111 [OF assms] by blast

theorem bragg_roundtrip_witness:
  "(0::real) < 10 \<and> (10::real) \<le> 90 \<and> \<not> ((2::int) = 0 \<and> (2::int) = 0 \<and> (0::int) = 0) \<and>
   (\<exists>E. xf_bragg2e_99 10 2 2 0 0 = Fin E \<and> xf_e2bragg_99 E 2 2 0 = Fin 10) \<and>
   (\<exists>E. xf_bragg2e 10 1 1 1 0 = Fin E \<and> xf_e2bragg E 1 1 1 = Fin 10)"
  using bragg_roundtrip [of 10 2 2 0] by simp

text \<open>
  Claim C3 as stated asks only for \<open>sin angle \<noteq> 0\<close>. At 100 degrees the sine is not
  zero, and the round trip returns 80 degrees: the arcsine returns the principal value.
\<close>

theorem bragg_roundtrip_counterexample:
  "xf_bragg2e_99 100 1 1 1 0
     = Fin (12398.42 / (2 * 5.43102 / sqrt 3 * sin (100 * pi / 180))) \<and>
   xf_e2bragg_99 (12398.42 / (2 * 5.43102 / sqrt 3 * sin (100 * pi / 180))) 1 1 1 = Fin 80 \<and>
   sin (100 * pi / 180) \<noteq> 0"
proof -
  have n: "0 < miller_norm_99 1 1 1" by (simp add: miller_norm_99_def)
  have n3: "real_of_int (miller_norm_99 1 1 1) = 3" by (simp add: miller_norm_99_def)
  have x: "0 < sin (if (100::real) > 1 then 100 * pi / 180 else 100)"
    unfolding sel100 by (rule sin100_pos)
  have "xf_bragg2e_99 100 1 1 1 0
     = Fin (12398.42 / (2 * 5.43102 / sqrt 3 * sin (100 * pi / 180)))"
    unfolding xf_bragg2e_99_def Let_def
    using roundtrip_general(1) [OF n x] unfolding sel100 n3 .
  moreover have "xf_e2bragg_99 (12398.42 / (2 * 5.43102 / sqrt 3 * sin (100 * pi / 180))) 1 1 1
     = Fin 80"
    unfolding xf_e2bragg_99_def Let_def
    using roundtrip_general(2) [OF n x] unfolding sel100 n3 arcsin_sin100 .
  moreover have "sin (100 * pi / 180) \<noteq> 0" using sin100_pos by simp
  ultimately show ?thesis by simp
qed

text \<open>
  Claim C4: for a distance, a wavelength and a diameter that are positive,
  \<^verbatim>\<open>xf_recResolution2detZ\<close> applied to the resolution that \<^verbatim>\<open>xf_detZ2recResolution\<close>
  returns gives the distance back.
\<close>

theorem detZ_roundtrip:
  assumes "0 < distance" and "0 < wavelength" and "0 < diameter"
  shows "\<exists>r. xf_detZ2recResolution distance wavelength diameter = Inr (Fin r) \<and>
             xf_recResolution2detZ r wavelength diameter = Inr (Fin distance)"
proof -
  let ?y = "0.5 * diameter / distance"
  have y: "0 < ?y" using assms by simp
  have x: "sin (0.5 * arctan ?y) \<noteq> 0" using sin_half_arctan_pos [OF y] by simp
  have z: "distance \<noteq> 0" using assms by simp
  have inv: "0.5 * diameter / ?y = distance" using assms by simp
  have "xf_detZ2recResolution distance wavelength diameter
        = Inr (Fin (wavelength / (2 * sin (0.5 * arctan ?y))))"
    by (rule resolution_value [OF z x])
  moreover have "xf_recResolution2detZ (wavelength / (2 * sin (0.5 * arctan ?y))) wavelength diameter
        = Inr (Fin distance)"
    using distance_value [OF y assms(2), of diameter] inv by simp
  ultimately show ?thesis by blast
qed

theorem detZ_roundtrip_witness:
  "(0::real) < 200 \<and> (0::real) < 1 \<and> 0 < D_default \<and>
   (\<exists>r. xf_detZ2recResolution 200 1 D_default = Inr (Fin r) \<and>
        xf_recResolution2detZ r 1 D_default = Inr (Fin 200))"
  using detZ_roundtrip [of 200 1 D_default] by (simp add: D_default_def)

text \<open>
  Claim C5, as amended: \<^verbatim>\<open>xf_bragg2e\<close> raises nothing. With arithmetic squares
  (\<^verbatim>\<open>99-macros_99.py\<close>) and \<open>h = k = l = 0\<close> it returns \<open>0.0\<close> when
  \<open>sin angle_rad \<noteq> 0\<close> and \<open>nan\<close> when \<open>sin angle_rad = 0\<close>; when \<open>sin angle_rad = 0\<close> and
  the indices are not all zero it returns \<open>inf\<close>, as does the function of
  \<^verbatim>\<open>99-macros.py\<close> at the default indices.
\<close>

theorem xf_bragg2e_degenerate:
  "(h = 0 \<and> k = 0 \<and> l = 0 \<and> sin (if t > 1 then t * pi / 180 else t) \<noteq> 0
      \<longrightarrow> xf_bragg2e_99 t h k l LN = Fin 0) \<and>
   (h = 0 \<and> k = 0 \<and> l = 0 \<and> sin (if t > 1 then t * pi / 180 else t) = 0
      \<longrightarrow> xf_bragg2e_99 t h k l LN = NaN) \<and>
   (\<not> (h = 0 \<and> k = 0 \<and> l = 0) \<and> sin (if t > 1 then t * pi / 180 else t) = 0
      \<longrightarrow> xf_bragg2e_99 t h k l LN = Inf) \<and>
   (sin (if t > 1 then t * pi / 180 else t) = 0 \<longrightarrow> xf_bragg2e t 1 1 1 LN = Inf)"
proof -
  have n: "0 \<le> miller_norm 1 1 1" by (simp add: miller_norm_111)
  have n3: "miller_norm 1 1 1 \<noteq> 0" by (simp add: miller_norm_111)
  show ?thesis
    unfolding xf_bragg2e_99_cases xf_bragg2e_cases [OF n] using n3 by simp
qed

theorem xf_bragg2e_degenerate_witness:
  "sin (if (20::real) > 1 then 20 * pi / 180 else 20) \<noteq> 0 \<and>
   xf_bragg2e_99 20 0 0 0 1 = Fin 0 \<and>
   sin (if (0::real) > 1 then 0 * pi / 180 else 0) = 0 \<and>
   xf_bragg2e_99 0 0 0 0 0 = NaN \<and>
   xf_bragg2e_99 0 1 1 1 0 = Inf \<and> xf_bragg2e 0 1 1 1 0 = Inf"
proof -
  have "0 < sin (20 * pi / 180)"
    by (rule sin_gt_zero) (use pi_gt_zero in auto)
  then have s: "sin (if (20::real) > 1 then 20 * pi / 180 else 20) \<noteq> 0"
    by simp
  then have "xf_bragg2e_99 20 0 0 0 1 = Fin 0"
    using xf_bragg2e_degenerate [of 0 0 0 20 1] by simp
  moreover have "xf_bragg2e_99 0 0 0 0 0 = NaN"
    using xf_bragg2e_degenerate [of 0 0 0 0 0] by simp
  moreover have "xf_bragg2e_99 0 1 1 1 0 = Inf"
    using xf_bragg2e_degenerate [of 1 1 1 0 0] by simp
  moreover have "xf_bragg2e 0 1 1 1 0 = Inf"
    using xf_bragg2e_degenerate [of 1 1 1 0 0] by simp
  ultimately show ?thesis using s by simp
qed

text \<open>
  Claim C5 as stated says that no ordinary number is returned for \<open>h = k = l = 0\<close>.
  \<^verbatim>\<open>xf_bragg2e(10, h=0, k=0, l=0)\<close> of \<^verbatim>\<open>99-macros_99.py\<close> returns \<open>0.0\<close>.
\<close>

theorem xf_bragg2e_zero_indices_counterexample:
  "xf_bragg2e_99 10 0 0 0 0 = Fin 0"
  using sin10_pos by (simp add: xf_bragg2e_99_cases)

text \<open>
  Claim C6, as amended: when \<open>\<bar>12398.42 / d0 / E\<bar> > 1\<close>, with \<open>E\<close> the energy after the
  keV heuristic and \<open>d0 = 2 * 5.43102 / sqrt (h\<^sup>2 + k\<^sup>2 + l\<^sup>2)\<close>, \<^verbatim>\<open>xf_e2bragg\<close> returns
  \<open>nan\<close>; it raises nothing. This holds in \<^verbatim>\<open>99-macros_99.py\<close> for all Miller indices
  that are not all zero, and in \<^verbatim>\<open>99-macros.py\<close> at the default indices \<open>(1, 1, 1)\<close>.
\<close>

theorem xf_e2bragg_out_of_domain:
  "(\<not> (h = 0 \<and> k = 0 \<and> l = 0) \<and>
    1 < \<bar>12398.42 / (2 * 5.43102 / sqrt (real_of_int (h ^ 2 + k ^ 2 + l ^ 2)))
          / (if E < 100 then E * 1000 else E)\<bar>
      \<longrightarrow> xf_e2bragg_99 E h k l = NaN) \<and>
   (1 < \<bar>12398.42 / (2 * 5.43102 / sqrt (real_of_int (1 ^ 2 + 1 ^ 2 + 1 ^ 2)))
          / (if E < 100 then E * 1000 else E)\<bar>
      \<longrightarrow> xf_e2bragg E 1 1 1 = NaN)"
proof (intro conjI impI)
  assume a: "\<not> (h = 0 \<and> k = 0 \<and> l = 0) \<and>
    1 < \<bar>12398.42 / (2 * 5.43102 / sqrt (real_of_int (h ^ 2 + k ^ 2 + l ^ 2)))
          / (if E < 100 then E * 1000 else E)\<bar>"
  have n: "0 < miller_norm_99 h k l" using a by (intro miller_norm_99_pos) blast
  have c: "(2 * 5.43102 :: real) \<noteq> 0" by simp
  have d: "1 < \<bar>12398.42 / (2 * 5.43102 / sqrt (real_of_int (miller_norm_99 h k l)))
          / (if E < 100 then E * 1000 else E)\<bar>"
    unfolding miller_norm_99_def using a by blast
  show "xf_e2bragg_99 E h k l = NaN"
    unfolding xf_e2bragg_99_def Let_def
    by (rule np_arcsin_out_of_domain [OF n c d])
next
  assume a: "1 < \<bar>12398.42 / (2 * 5.43102 / sqrt (real_of_int (1 ^ 2 + 1 ^ 2 + 1 ^ 2)))
          / (if E < 100 then E * 1000 else E)\<bar>"
  have n: "0 < miller_norm 1 1 1" by (simp add: miller_norm_111)
  have c: "(2 * 5.43102 :: real) \<noteq> 0" by simp
  have e: "miller_norm 1 1 1 = 1 ^ 2 + 1 ^ 2 + 1 ^ 2" by (simp add: miller_norm_111)
  have d: "1 < \<bar>12398.42 / (2 * 5.43102 / sqrt (real_of_int (miller_norm 1 1 1)))
          / (if E < 100 then E * 1000 else E)\<bar>"
    unfolding e by (rule a)
  show "xf_e2bragg E 1 1 1 = NaN"
    unfolding xf_e2bragg_def Let_def
    by (rule np_arcsin_out_of_domain [OF n c d])
qed

theorem xf_e2bragg_out_of_domain_witness:
  "\<not> ((1::int) = 0 \<and> (1::int) = 0 \<and> (1::int) = 0) \<and>
   1 < \<bar>12398.42 / (2 * 5.43102 / sqrt (real_of_int (1 ^ 2 + 1 ^ 2 + 1 ^ 2)))
                 / (if (1::real) < 100 then 1 * 1000 else 1)\<bar> \<and>
   xf_e2bragg_99 1 1 1 1 = NaN \<and> xf_e2bragg 1 1 1 1 = NaN"
proof -
  have "(12398.42::real) * 1 / (2 * 5.43102 * 1000) \<le> 12398.42 * sqrt 3 / (2 * 5.43102 * 1000)"
    by (intro divide_right_mono mult_left_mono) auto
  moreover have "(1::real) < 12398.42 * 1 / (2 * 5.43102 * 1000)" by simp
  ultimately have "(1::real) < 12398.42 * sqrt 3 / (2 * 5.43102 * 1000)" by linarith
  then have h: "1 < \<bar>12398.42 / (2 * 5.43102 / sqrt (real_of_int (1 ^ 2 + 1 ^ 2 + 1 ^ 2)))
                 / (if (1::real) < 100 then 1 * 1000 else 1)\<bar>"
    by simp
  have i: "\<not> ((1::int) = 0 \<and> (1::int) = 0 \<and> (1::int) = 0)" by simp
  have "xf_e2bragg_99 1 1 1 1 = NaN"
    using xf_e2bragg_out_of_domain [of 1 1 1 1] h i by blast
  moreover have "xf_e2bragg 1 1 1 1 = NaN"
    using xf_e2bragg_out_of_domain [of 1 1 1 1] h by blast
  ultimately show ?thesis using h i by blast
qed

text \<open>
  Claim C6 as stated says that the function fails with an error rather than returning
  \<open>nan\<close>. \<^verbatim>\<open>xf_e2bragg(1000)\<close> returns \<open>nan\<close>, in both files.
\<close>

theorem xf_e2bragg_nan_counterexample:
  "xf_e2bragg_99 1000 1 1 1 = NaN \<and> xf_e2bragg 1000 1 1 1 = NaN"
proof -
  have n: "0 < miller_norm_99 1 1 1" by (simp add: miller_norm_99_def)
  have m: "0 < miller_norm 1 1 1" by (simp add: miller_norm_111)
  have c: "(2 * 5.43102 :: real) \<noteq> 0" by simp
  have "(12398.42::real) * 1 / (2 * 5.43102 * 1000) \<le> 12398.42 * sqrt 3 / (2 * 5.43102 * 1000)"
    by (intro divide_right_mono mult_left_mono) auto
  moreover have "(1::real) < 12398.42 * 1 / (2 * 5.43102 * 1000)" by simp
  ultimately have b: "(1::real) < 12398.42 * sqrt 3 / (2 * 5.43102 * 1000)" by linarith
  have "1 < \<bar>12398.42 / (2 * 5.43102 / sqrt (real_of_int (miller_norm_99 1 1 1))) / 1000\<bar>"
    using b by (simp add: miller_norm_99_def)
  then have "np_div (np_mul (np_arcsin (np_div (np_div (Fin 12398.42)
        (np_div (Fin (2 * 5.43102)) (np_sqrt (miller_norm_99 1 1 1)))) (Fin 1000)))
           (Fin 180)) (Fin pi) = NaN"
    by (rule np_arcsin_out_of_domain [OF n c])
  then have 1: "xf_e2bragg_99 1000 1 1 1 = NaN"
    by (simp add: xf_e2bragg_99_def)
  have "1 < \<bar>12398.42 / (2 * 5.43102 / sqrt (real_of_int (miller_norm 1 1 1))) / 1000\<bar>"
    using b by (simp add: miller_norm_111)
  then have "np_div (np_mul (np_arcsin (np_div (np_div (Fin 12398.42)
        (np_div (Fin (2 * 5.43102)) (np_sqrt (miller_norm 1 1 1)))) (Fin 1000)))
           (Fin 180)) (Fin pi) = NaN"
    by (rule np_arcsin_out_of_domain [OF m c])
  then have 2: "xf_e2bragg 1000 1 1 1 = NaN"
    by (simp add: xf_e2bragg_def)
  show ?thesis using 1 2 by blast
qed

text \<open>
  Claim C7, as amended: when the recomputed demand vector of \<^verbatim>\<open>set_influence\<close> has two
  adjacent values that differ by more than 500, the call prints the message and returns
  without writing to the decrement or the increment variable. The device operations of
  the call are the write that selects the bank, which comes before the demands are read,
  and the reads of the step size and of the sixteen demands.
\<close>

theorem set_influence_safety_abort:
  assumes "bimorph \<in> set allowed_bimorphs" and "0 \<le> electrode" and "electrode \<le> 31"
    and "p = (if bimorph = ''hfm'' then HFM_PS else KB_PS)"
    and "demand_pvs = map (U_CURRENT_MON p) [(bank - 1) * 16 .. bank * 16 - 1]"
    and "new_demands = step_demands (if electrode < 16 then electrode else electrode - 16)
                          (pvs s (U_STEP_MON p)) (map (pvs s) demand_pvs)"
    and "\<exists>j. Suc j < length new_demands \<and> \<bar>new_demands ! Suc j - new_demands ! j\<bar> > 500"
  shows "ops (set_influence electrode bimorph bank s) =
           ops s @ Put (BANK_NO_32 p) (real_of_int (bank - 1)) # Get (U_STEP_MON p)
                 # map Get demand_pvs \<and>
         printed (set_influence electrode bimorph bank s) = printed s @ [Msg_difference] \<and>
         pvs (set_influence electrode bimorph bank s) =
           (pvs s)(BANK_NO_32 p := real_of_int (bank - 1))"
proof -
  have "diff_too_large (np_diff new_demands)"
    using assms(7) by (simp add: diff_too_large_np_diff)
  then show ?thesis
    unfolding set_influence_valid [OF assms(1-3)] Let_def
    using assms(4-6) by (simp add: print_def)
qed

theorem set_influence_safety_abort_witness:
  "ops (set_influence 17 ''hfm'' 2 hw0) =
     Put (BANK_NO_32 HFM_PS) 1 # Get (U_STEP_MON HFM_PS)
       # map Get (map (U_CURRENT_MON HFM_PS) [16..31]) \<and>
   printed (set_influence 17 ''hfm'' 2 hw0) = [Msg_difference] \<and>
   pvs (set_influence 17 ''hfm'' 2 hw0) = (pvs hw0)(BANK_NO_32 HFM_PS := 1)"
proof -
  let ?nd = "step_demands (if (17::int) < 16 then 17 else 17 - 16)
               (pvs hw0 (U_STEP_MON HFM_PS))
               (map (pvs hw0) (map (U_CURRENT_MON HFM_PS) [(2 - 1) * 16 .. 2 * 16 - 1]))"
  have nd: "?nd = [990, 10, 0, 0, 0, 0, 0, 0, 0, 0, 0, 0, 0, 0, 0, 0]"
    by (simp add: step_demands_def hw0_def upto_rec1)
  have "Suc 0 < length ?nd \<and> \<bar>?nd ! Suc 0 - ?nd ! 0\<bar> > 500"
    unfolding nd by simp
  then have ex: "\<exists>j. Suc j < length ?nd \<and> \<bar>?nd ! Suc j - ?nd ! j\<bar> > 500"
    by blast
  have b: "''hfm'' \<in> set allowed_bimorphs" by (simp add: allowed_bimorphs_def)
  have p: "HFM_PS = (if ''hfm'' = ''hfm'' then HFM_PS else KB_PS)" by simp
  show ?thesis
    using set_influence_safety_abort [where s = hw0 and bank = 2, OF b _ _ p refl refl ex]
    by (simp add: hw0_def)
qed

text \<open>
  Claim C7 as stated says that an aborted call issues no device write at all. In the
  state \<open>hw0\<close> the call \<^verbatim>\<open>set_influence(0, 'kb', 1)\<close> recomputes a first demand of 1010
  next to a demand of 0 and aborts, after it has written the bank number.
\<close>

theorem set_influence_bank_write_counterexample:
  "diff_too_large (np_diff (step_demands 0 (pvs hw0 (U_STEP_MON KB_PS))
      (map (pvs hw0) (map (U_CURRENT_MON KB_PS) [0..15])))) \<and>
   printed (set_influence 0 ''kb'' 1 hw0) = [Msg_difference] \<and>
   ops (set_influence 0 ''kb'' 1 hw0) =
     Put (BANK_NO_32 KB_PS) 0 # Get (U_STEP_MON KB_PS)
       # map Get (map (U_CURRENT_MON KB_PS) [0..15])"
  by (simp add: set_influence_def allowed_bimorphs_def hw0_def Let_def pv_get_def get_all_eq
      pv_put_def print_def step_demands_def upto_rec1)

text \<open>
  Claim C8: a call of \<^verbatim>\<open>set_influence\<close> with a bimorph other than \<^verbatim>\<open>'hfm'\<close> and \<^verbatim>\<open>'kb'\<close>,
  or with an electrode outside 0..31, prints the violated condition and returns: it
  issues no device operation, neither a read nor a write, and leaves the process
  variables as they are.
\<close>

theorem set_influence_invalid_arguments:
  assumes "bimorph \<notin> set allowed_bimorphs \<or> electrode < 0 \<or> electrode > 31"
  shows "pvs (set_influence electrode bimorph bank s) = pvs s \<and>
         ops (set_influence electrode bimorph bank s) = ops s \<and>
         printed (set_influence electrode bimorph bank s) =
           printed s @ [if bimorph \<notin> set allowed_bimorphs then Msg_bimorph else Msg_electrode]"
  using assms by (auto simp: set_influence_def print_def)

theorem set_influence_invalid_arguments_witness:
  "ops (set_influence 32 ''kb'' 2 hw0) = [] \<and> pvs (set_influence 32 ''kb'' 2 hw0) = pvs hw0 \<and>
   printed (set_influence 32 ''kb'' 2 hw0) = [Msg_electrode] \<and>
   ops (set_influence 3 ''vfm'' 1 hw0) = [] \<and> pvs (set_influence 3 ''vfm'' 1 hw0) = pvs hw0 \<and>
   printed (set_influence 3 ''vfm'' 1 hw0) = [Msg_bimorph]"
  using set_influence_invalid_arguments [of "''kb''" 32 2 hw0]
    set_influence_invalid_arguments [of "''vfm''" 3 1 hw0]
  by (simp add: allowed_bimorphs_def hw0_def)

text \<open>
  Claim C9, as amended: \<^verbatim>\<open>xf_detZ2recResolution(327.8, 1.0)\<close> with the default diameter
  takes the arctangent of \<open>0.5\<close>, about 0.4636, and returns a resolution of about 2.176;
  \<^verbatim>\<open>xf_recResolution2detZ\<close> takes that resolution back to 327.8.
\<close>

theorem resolution_example:
  "0.5 * D_default / 327.8 = (0.5 :: real) \<and>
   0.4636 < arctan 0.5 \<and> arctan 0.5 < 0.4637 \<and>
   (\<exists>r. xf_detZ2recResolution 327.8 1 D_default = Inr (Fin r) \<and>
        2.176 < r \<and> r < 2.177 \<and>
        xf_recResolution2detZ r 1 D_default = Inr (Fin 327.8))"
proof -
  have "xf_recResolution2detZ (1 / (2 * sin (0.5 * arctan (1 / 2)))) 1 D_default
        = Inr (Fin (0.5 * D_default / (1 / 2)))"
    by (rule distance_value) simp_all
  then have 2: "xf_recResolution2detZ (1 / (2 * sin (0.5 * arctan (1 / 2)))) 1 D_default
        = Inr (Fin 327.8)"
    by (simp add: D_default_def)
  have 3: "\<exists>r. xf_detZ2recResolution 327.8 1 D_default = Inr (Fin r) \<and>
        2.176 < r \<and> r < 2.177 \<and>
        xf_recResolution2detZ r 1 D_default = Inr (Fin 327.8)"
    using resolution_at_default 2 resolution_bounds by blast
  have 4: "0.5 * D_default / 327.8 = (0.5 :: real)" by (simp add: D_default_def)
  have 5: "0.4636 < arctan 0.5" "arctan 0.5 < 0.4637"
    using arctan_half_bounds by simp_all
  show ?thesis using 3 4 5 by blast
qed

text \<open>
  Claim C9 as stated gives a resolution of about 1.057. The resolution returned is
  above 2.176.
\<close>

theorem resolution_example_counterexample:
  "xf_detZ2recResolution 327.8 1 D_default = Inr (Fin (1 / (2 * sin (0.5 * arctan (1 / 2))))) \<and>
   2.176 < 1 / (2 * sin (0.5 * arctan (1 / 2)))"
  using resolution_at_default resolution_bounds(1) by simp

text \<open>
  Claim C10: an energy below 100 given to \<^verbatim>\<open>xf_e2bragg\<close> is multiplied by 1000 before
  the conversion, in both files; when the product is at least 100, the result is the
  one of \<^verbatim>\<open>xf_e2bragg\<close> at the product, as for 50 and 50000.
\<close>

theorem xf_e2bragg_keV:
  assumes "E < 100"
  shows "xf_e2bragg_99 E h k l =
           np_div (np_mul (np_arcsin (np_div (np_div (Fin 12398.42)
             (np_div (Fin (2 * 5.43102)) (np_sqrt (h ^ 2 + k ^ 2 + l ^ 2)))) (Fin (E * 1000))))
             (Fin 180)) (Fin pi) \<and>
         xf_e2bragg E h k l =
           np_div (np_mul (np_arcsin (np_div (np_div (Fin 12398.42)
             (np_div (Fin (2 * 5.43102)) (np_sqrt (miller_norm h k l)))) (Fin (E * 1000))))
             (Fin 180)) (Fin pi) \<and>
         (100 \<le> E * 1000 \<longrightarrow> xf_e2bragg_99 E h k l = xf_e2bragg_99 (E * 1000) h k l) \<and>
         (100 \<le> E * 1000 \<longrightarrow> xf_e2bragg E h k l = xf_e2bragg (E * 1000) h k l)"
  using assms by (simp add: xf_e2bragg_99_def xf_e2bragg_def miller_norm_99_def)

theorem xf_e2bragg_keV_witness:
  "(50::real) < 100 \<and> (100::real) \<le> 50 * 1000 \<and>
   xf_e2bragg_99 50 1 1 1 = xf_e2bragg_99 50000 1 1 1 \<and>
   xf_e2bragg 50 1 1 1 = xf_e2bragg 50000 1 1 1"
proof -
  have h: "(50::real) < 100" by simp
  have g: "(100::real) \<le> 50 * 1000" by simp
  have e: "(50::real) * 1000 = 50000" by simp
  have "xf_e2bragg_99 50 1 1 1 = xf_e2bragg_99 (50 * 1000) 1 1 1"
    using xf_e2bragg_keV [OF h, of 1 1 1] g by blast
  then have a: "xf_e2bragg_99 50 1 1 1 = xf_e2bragg_99 50000 1 1 1"
    unfolding e .
  have "xf_e2bragg 50 1 1 1 = xf_e2bragg (50 * 1000) 1 1 1"
    using xf_e2bragg_keV [OF h, of 1 1 1] g by blast
  then have b: "xf_e2bragg 50 1 1 1 = xf_e2bragg 50000 1 1 1"
    unfolding e .
  show ?thesis
    using h g a b by blast
qed

end
